theory Spec2Isabelle
  imports Main "HOL-Library.Sublist"
begin

section \<open>Text: Python \<open>str\<close> operations used by the pipeline\<close>

text \<open>
  A Python \<open>str\<close> is a sequence of code points. The model uses \<open>string\<close>, whose
  characters are the code points 0 to 255 (ASCII and Latin-1); on these, \<open>str.lower\<close>,
  \<open>str.isspace\<close> and the regular-expression classes \<open>\s\<close> and \<open>\w\<close> are as defined
  below. Text with code points beyond 255 is outside the model.
\<close>

definition lower_char :: "char \<Rightarrow> char" where
  "lower_char c =
     (let n = (of_char c :: nat)
      in if (65 \<le> n \<and> n \<le> 90) \<or> (192 \<le> n \<and> n \<le> 214) \<or> (216 \<le> n \<and> n \<le> 222)
         then char_of (n + 32) else c)"

definition lower :: "string \<Rightarrow> string" where
  "lower s = map lower_char s"

definition isspace :: "char \<Rightarrow> bool" where
  "isspace c =
     (let n = (of_char c :: nat)
      in (9 \<le> n \<and> n \<le> 13) \<or> (28 \<le> n \<and> n \<le> 32) \<or> n = 133 \<or> n = 160)"

definition isword :: "char \<Rightarrow> bool" where
  "isword c =
     (let n = (of_char c :: nat)
      in (48 \<le> n \<and> n \<le> 57) \<or> (65 \<le> n \<and> n \<le> 90) \<or> n = 95 \<or> (97 \<le> n \<and> n \<le> 122)
         \<or> n = 170 \<or> n = 178 \<or> n = 179 \<or> n = 181 \<or> n = 185 \<or> n = 186
         \<or> (188 \<le> n \<and> n \<le> 190) \<or> (192 \<le> n \<and> n \<le> 214) \<or> (216 \<le> n \<and> n \<le> 246)
         \<or> 248 \<le> n)"

text \<open>\<open>s.strip()\<close>: whitespace removed at both ends.\<close>

definition strip :: "string \<Rightarrow> string" where
  "strip s = rev (dropWhile isspace (rev (dropWhile isspace s)))"

text \<open>\<open>sub in s\<close> on strings: \<open>sub\<close> occurs in \<open>s\<close> as a contiguous run; the empty
  string occurs in every string.\<close>

fun contains :: "string \<Rightarrow> string \<Rightarrow> bool" where
  "contains sub [] = (sub = [])"
| "contains sub (c # s) = (prefix sub (c # s) \<or> contains sub s)"

text \<open>\<open>sep.join(parts)\<close>.\<close>

fun join :: "string \<Rightarrow> string list \<Rightarrow> string" where
  "join sep [] = []"
| "join sep [p] = p"
| "join sep (p # q # ps) = p @ sep @ join sep (q # ps)"

text \<open>\<open>s.split('/')[-1]\<close>: the text after the last \<open>/\<close> (all of \<open>s\<close> when it has none).\<close>

definition last_segment :: "string \<Rightarrow> string" where
  "last_segment s = rev (takeWhile (\<lambda>c. c \<noteq> CHR ''/'') (rev s))"


section \<open>Regular expressions: the backtracking search of \<open>re.search\<close>\<close>

text \<open>
  The five patterns of the extractor use literals, the greedy repetitions \<open>\s+\<close> and
  \<open>\w+\<close>, the greedy optional \<open>?\<close>, concatenation and one capturing group. The matcher
  returns every way the pattern can match at the start of the input, in the order in which
  the backtracking engine tries them (greedy alternatives first); the engine's match is
  the head of that list. A matcher state is the input still to be read and the text of
  group 1 (if set).
\<close>

datatype cclass = Space | Word

datatype rx =
    Lit string
  | Plus cclass
  | Opt rx
  | Seq rx rx
  | Group rx

type_synonym mstate = "string \<times> string option"

fun class_mem :: "cclass \<Rightarrow> char \<Rightarrow> bool" where
  "class_mem Space c = isspace c"
| "class_mem Word c = isword c"

fun rx_match :: "rx \<Rightarrow> mstate \<Rightarrow> mstate list" where
  "rx_match (Lit l) (s, g) = (if prefix l s then [(drop (length l) s, g)] else [])"
| "rx_match (Plus c) (s, g) =
     map (\<lambda>k. (drop k s, g)) (rev [1 ..< Suc (length (takeWhile (class_mem c) s))])"
| "rx_match (Opt r) st = rx_match r st @ [st]"
| "rx_match (Seq a b) st = concat (map (rx_match b) (rx_match a st))"
| "rx_match (Group r) (s, g) =
     map (\<lambda>(s', g'). (s', Some (take (length s - length s') s))) (rx_match r (s, g))"

text \<open>\<open>re.search(pattern, s)\<close>: the match at the leftmost start position that has one
  (every position from 0 to \<open>len(s)\<close> is tried), or \<open>None\<close>. A match is represented by
  what \<open>match.group(1)\<close> returns.\<close>

fun re_search :: "rx \<Rightarrow> string \<Rightarrow> string option option" where
  "re_search r [] =
     (case rx_match r ([], None) of [] \<Rightarrow> None | (_, g) # _ \<Rightarrow> Some g)"
| "re_search r (c # s) =
     (case rx_match r (c # s, None) of [] \<Rightarrow> re_search r s | (_, g) # _ \<Rightarrow> Some g)"


text \<open>Two syntactic checks on a pattern, used to reason about group 1: a pattern without
  a group leaves group 1 as it was, and a pattern whose every match runs through a
  \<open>(\w+)\<close>-like group sets it to a non-empty text.\<close>

fun keeps_group :: "rx \<Rightarrow> bool" where
  "keeps_group (Lit l) = True"
| "keeps_group (Plus c) = True"
| "keeps_group (Opt r) = keeps_group r"
| "keeps_group (Seq a b) = (keeps_group a \<and> keeps_group b)"
| "keeps_group (Group r) = False"

fun sets_group :: "rx \<Rightarrow> bool" where
  "sets_group (Group (Plus c)) = True"
| "sets_group (Seq a b) = (sets_group b \<or> (sets_group a \<and> keeps_group b))"
| "sets_group r = False"


section \<open>EntityExtractor (src/entity_extractor.py)\<close>

text \<open>\<open>r'coach(?:ing)?\s+(\w+)'\<close>\<close>
definition pattern1 :: rx where
  "pattern1 = Seq (Lit ''coach'') (Seq (Opt (Lit ''ing'')) (Seq (Plus Space) (Group (Plus Word))))"

text \<open>\<open>r'about\s+(\w+)'\<close>\<close>
definition pattern2 :: rx where
  "pattern2 = Seq (Lit ''about'') (Seq (Plus Space) (Group (Plus Word)))"

text \<open>\<open>r'(\w+)s?\s+manager'\<close>\<close>
definition pattern3 :: rx where
  "pattern3 = Seq (Group (Plus Word)) (Seq (Opt (Lit ''s'')) (Seq (Plus Space) (Lit ''manager'')))"

text \<open>\<open>r'for\s+(\w+)'\<close>\<close>
definition pattern4 :: rx where
  "pattern4 = Seq (Lit ''for'') (Seq (Plus Space) (Group (Plus Word)))"

text \<open>\<open>r'in\s+(\w+)'\<close>\<close>
definition pattern5 :: rx where
  "pattern5 = Seq (Lit ''in'') (Seq (Plus Space) (Group (Plus Word)))"

text \<open>\<open>_extract_entity_logic\<close>: the patterns are tried in this order and the first that
  matches returns its group 1; no pattern matching gives \<open>None\<close>.\<close>

definition extract_entity_logic :: "string \<Rightarrow> string option" where
  "extract_entity_logic normalized_question =
     (case re_search pattern1 normalized_question of Some entity \<Rightarrow> entity | None \<Rightarrow>
      case re_search pattern2 normalized_question of Some entity \<Rightarrow> entity | None \<Rightarrow>
      case re_search pattern3 normalized_question of Some entity \<Rightarrow> entity | None \<Rightarrow>
      case re_search pattern4 normalized_question of Some entity \<Rightarrow> entity | None \<Rightarrow>
      case re_search pattern5 normalized_question of Some entity \<Rightarrow> entity | None \<Rightarrow>
      None)"

text \<open>\<open>extract_city\<close>: the question is lowercased and stripped, then matched.\<close>

definition extract_city :: "string \<Rightarrow> string option" where
  "extract_city user_question = extract_entity_logic (strip (lower user_question))"


section \<open>PromptBuilder (src/prompt_builder.py)\<close>

definition get_system_prompt :: string where
  "get_system_prompt =
     ''SYSTEM PROMPT:\<newline>'' @
     ''You are a helpful assistant an expert in Germany`s 1. Bundesliga football (soccer).\<newline>'' @
     ''You answer questions about coaches of clubs in Germany's 1. Bundesliga.\<newline>'' @
     ''You must use only the information provided in the retrieved context below. You must never assume.\<newline>'' @
     ''Be concise but informative in your responses.\<newline>'' @
     ''Provide the coach's name and relevant information about them.''"

text \<open>The sentence that stands in for a missing biography.\<close>

definition no_biography_sentence :: string where
  "no_biography_sentence =
     ''Coach Information: No additional biographical information available from Wikipedia.''"

text \<open>\<open>_build_context\<close>: \<open>coach_intro\<close> is \<open>Optional[str]\<close>; \<open>None\<close> and the empty
  string are both false in \<open>if coach_intro\<close>.\<close>

definition build_context :: "string \<Rightarrow> string \<Rightarrow> string \<Rightarrow> string option \<Rightarrow> string" where
  "build_context club_name city coach_name coach_intro =
     (let context_parts = [''City: '' @ city, ''Club: '' @ club_name, ''Current Coach: '' @ coach_name]
      in join ''\<newline>''
           (context_parts @
             [case coach_intro of
                None \<Rightarrow> ''\<newline>'' @ no_biography_sentence
              | Some intro \<Rightarrow>
                  if intro = [] then ''\<newline>'' @ no_biography_sentence
                  else ''\<newline>Coach Information from Wikipedia:\<newline>'' @ intro]))"

definition build_prompt :: "string \<Rightarrow> string \<Rightarrow> string \<Rightarrow> string \<Rightarrow> string option \<Rightarrow> string" where
  "build_prompt user_question club_name city coach_name coach_intro =
     (let system_prompt = get_system_prompt;
          context = build_context club_name city coach_name coach_intro
      in system_prompt @ ''\<newline>\<newline>RETRIEVED CONTEXT:\<newline>'' @ context @
         ''\<newline>\<newline>USER QUESTION:\<newline>'' @ user_question @
         ''\<newline>\<newline>Please answer the user's question using the provided context.'')"


section \<open>External services and their clients\<close>

text \<open>Exceptions of the Python program, as values.\<close>

datatype pyexn = Timeout | RequestException | OtherException

text \<open>Outbound network requests, logged in the order they are sent: the SPARQL head-coach
  query for a club QID, and the Wikipedia extract request for an article title.\<close>

datatype request = CoachQuery string | IntroRequest string

text \<open>A row of the SPARQL JSON result for the coach query: the \<open>value\<close> of \<open>coachLabel\<close>
  and of \<open>coach\<close>, each possibly missing. The whole result is \<open>None\<close> when the
  \<open>results\<close>/\<open>bindings\<close> keys are missing.\<close>

record binding =
  coachLabel_value :: "string option"
  coach_value :: "string option"

type_synonym sparql_json = "binding list option"

text \<open>The pages of a Wikipedia API response, in order: page id and \<open>extract\<close> (if any).\<close>

type_synonym wiki_json = "(string \<times> string option) list"

text \<open>What the two services answer: the outcome of \<open>self.sparql.query().convert()\<close> for
  the coach query of a club QID, and of the HTTP request (with \<open>raise_for_status\<close> and
  \<open>json()\<close>) for an article title. Either may raise.\<close>

record services =
  sparql_coach :: "string \<Rightarrow> pyexn + sparql_json"
  wikipedia_get :: "string \<Rightarrow> pyexn + wiki_json"

record coach_info =
  name :: string
  qid :: string

text \<open>\<open>WikidataClient._process_coach_results\<close>\<close>

definition process_coach_results :: "sparql_json \<Rightarrow> coach_info option" where
  "process_coach_results results =
     (case results of
        None \<Rightarrow> None
      | Some bindings \<Rightarrow>
          (case bindings of
             [] \<Rightarrow> None
           | b # _ \<Rightarrow>
               (let coach_name = (case coachLabel_value b of None \<Rightarrow> [] | Some v \<Rightarrow> v);
                    coach_uri = (case coach_value b of None \<Rightarrow> [] | Some v \<Rightarrow> v);
                    coach_qid = (if coach_uri = [] then [] else last_segment coach_uri)
                in if coach_name = [] then None
                   else Some \<lparr>name = coach_name, qid = coach_qid\<rparr>)))"

text \<open>\<open>WikidataClient.get_coach_for_club\<close>: one query is sent; a failure of the query is
  logged and raised again.\<close>

definition get_coach_for_club ::
  "services \<Rightarrow> string \<Rightarrow> request list \<Rightarrow> (pyexn + coach_info option) \<times> request list" where
  "get_coach_for_club sv club_qid sent =
     (case sparql_coach sv club_qid of
        Inl e \<Rightarrow> (Inl e, sent @ [CoachQuery club_qid])
      | Inr results \<Rightarrow> (Inr (process_coach_results results), sent @ [CoachQuery club_qid]))"

text \<open>\<open>WikipediaClient._extract_intro_from_response\<close>\<close>

fun extract_intro_from_response :: "wiki_json \<Rightarrow> string option" where
  "extract_intro_from_response [] = None"
| "extract_intro_from_response ((page_id, page_extract) # pages) =
     (if page_id = ''-1'' then None
      else (case page_extract of
              None \<Rightarrow> extract_intro_from_response pages
            | Some extract \<Rightarrow>
                if extract = [] then extract_intro_from_response pages
                else Some (strip extract)))"

text \<open>\<open>WikipediaClient.get_coach_intro\<close>: one request is sent; every exception is caught
  and gives \<open>None\<close>.\<close>

definition get_coach_intro ::
  "services \<Rightarrow> string \<Rightarrow> request list \<Rightarrow> string option \<times> request list" where
  "get_coach_intro sv coach_name sent =
     (case wikipedia_get sv coach_name of
        Inl e \<Rightarrow> (None, sent @ [IntroRequest coach_name])
      | Inr data \<Rightarrow> (extract_intro_from_response data, sent @ [IntroRequest coach_name]))"


section \<open>Orchestrator (main.py)\<close>

record club =
  club_name :: string
  city :: string
  club_uri :: string
  club_qid :: string

text \<open>The state of a session: the roster cache (\<open>None\<close> until initialised) and the
  network requests sent so far. Calls of the logger are left out: they change neither
  the state nor a result.\<close>

record session =
  clubs_cache :: "club list option"
  requests :: "request list"

text \<open>The first loop of \<open>find_club_by_city\<close> (token \<open>pauli\<close>).\<close>

fun scan_pauli :: "club list \<Rightarrow> club option" where
  "scan_pauli [] = None"
| "scan_pauli (c # cs) =
     (if contains ''pauli'' (lower (club_name c)) then Some c else scan_pauli cs)"

text \<open>The second loop of \<open>find_club_by_city\<close>.\<close>

fun scan_clubs :: "string \<Rightarrow> club list \<Rightarrow> club option" where
  "scan_clubs city_identifier [] = None"
| "scan_clubs city_identifier (c # cs) =
     (let club_city_lower = lower (city c);
          club_name_lower = lower (club_name c)
      in if contains city_identifier club_city_lower \<or> contains club_city_lower city_identifier
         then Some c
         else if contains city_identifier club_name_lower then Some c
         else scan_clubs city_identifier cs)"

definition find_club_by_city :: "club list option \<Rightarrow> string \<Rightarrow> club option" where
  "find_club_by_city cache city_identifier =
     (case cache of
        None \<Rightarrow> None
      | Some clubs \<Rightarrow>
          if clubs = [] then None
          else (case (if city_identifier = ''pauli'' then scan_pauli clubs else None) of
                  Some c \<Rightarrow> Some c
                | None \<Rightarrow> scan_clubs city_identifier clubs))"

text \<open>\<open>_format_error_response\<close>\<close>

definition format_error_response :: "string \<Rightarrow> string" where
  "format_error_response error_message =
     ''ERROR: '' @ error_message @ ''\<newline>\<newline>'' @
     ''Dear user, the Germany`s 1. Bundesliga RAG-Chatbot system was unable to retrieve the necessary information to answer your question.\<newline>'' @
     ''Please check your input and try again.\<newline>\<newline>'' @
     ''Examples of valid questions:\<newline>'' @
     ''  - Who is coaching Berlin?\<newline>'' @
     ''  - What about munich?\<newline>'' @
     ''  - Who is heidenheims manager?\<newline>'' @
     ''  - Who is it for Pauli?''"

text \<open>The four messages of \<open>process_query\<close>.\<close>

definition extraction_miss_msg :: string where
  "extraction_miss_msg =
     ''Dear user, I could not identify a city or club in your question. Please, use the required question format and specify which city or club you're asking about.''"

definition resolution_miss_msg :: "string \<Rightarrow> string" where
  "resolution_miss_msg city_identifier =
     ''Dear user, I could not find a Bundesliga club for '' @ [CHR 0x27] @ city_identifier @ [CHR 0x27] @
     ''. Please, use the required question format or check the city name.''"

definition coach_miss_msg :: "string \<Rightarrow> string" where
  "coach_miss_msg club =
     ''Could not find current coach information for '' @ club @
     ''. The data may not be available in Wikidata.''"

definition unexpected_error_msg :: string where
  "unexpected_error_msg =
     ''Dear user, an unexpected error occurred while processing your question. Please try again.''"

text \<open>The body of the \<open>try\<close> block of \<open>process_query\<close>: \<open>Inl\<close> is an exception that
  reaches the \<open>except\<close> clause, \<open>Inr\<close> a returned string.\<close>

definition process_query_try :: "services \<Rightarrow> session \<Rightarrow> string \<Rightarrow> (pyexn + string) \<times> session" where
  "process_query_try sv st user_question =
     (case extract_city user_question of
        None \<Rightarrow> (Inr (format_error_response extraction_miss_msg), st)
      | Some city_identifier \<Rightarrow>
          if city_identifier = [] then (Inr (format_error_response extraction_miss_msg), st)
          else
            (case find_club_by_city (clubs_cache st) city_identifier of
               None \<Rightarrow> (Inr (format_error_response (resolution_miss_msg city_identifier)), st)
             | Some club_info \<Rightarrow>
                 (case get_coach_for_club sv (club_qid club_info) (requests st) of
                    (Inl e, sent1) \<Rightarrow> (Inl e, st\<lparr>requests := sent1\<rparr>)
                  | (Inr None, sent1) \<Rightarrow>
                      (Inr (format_error_response (coach_miss_msg (club_name club_info))),
                       st\<lparr>requests := sent1\<rparr>)
                  | (Inr (Some coach_info), sent1) \<Rightarrow>
                      (case get_coach_intro sv (name coach_info) sent1 of
                         (coach_intro, sent2) \<Rightarrow>
                           (Inr (build_prompt user_question (club_name club_info) (city club_info)
                                   (name coach_info) coach_intro),
                            st\<lparr>requests := sent2\<rparr>)))))"

text \<open>\<open>process_query\<close>: the \<open>except Exception\<close> clause turns an exception into the
  generic error response.\<close>

definition process_query :: "services \<Rightarrow> session \<Rightarrow> string \<Rightarrow> string \<times> session" where
  "process_query sv st user_question =
     (case process_query_try sv st user_question of
        (Inr response, st') \<Rightarrow> (response, st')
      | (Inl e, st') \<Rightarrow> (format_error_response unexpected_error_msg, st'))"


section \<open>Substrings and suffixes\<close>

lemma contains_sublist: "contains sub s = sublist sub s"
  by (induction s) (simp_all add: sublist_Cons_right)

lemma contains_appendI: "contains sub (p @ sub @ q)"
  by (simp add: contains_sublist)

lemma suffix_last: "suffix xs ys \<Longrightarrow> xs \<noteq> [] \<Longrightarrow> last ys = last xs"
  by (auto simp: suffix_def)


section \<open>The rendered prompt\<close>

lemma build_context_flat:
  "build_context club town coach intro =
     ''City: '' @ town @ ''\<newline>'' @ ''Club: '' @ club @ ''\<newline>'' @
     ''Current Coach: '' @ coach @ ''\<newline>\<newline>'' @
     (case intro of
        None \<Rightarrow> no_biography_sentence
      | Some b \<Rightarrow> if b = [] then no_biography_sentence
                 else ''Coach Information from Wikipedia:\<newline>'' @ b)"
  by (simp add: build_context_def split: option.split)

text \<open>
  Claim C7. For every question, club name, city, coach name and optional biography, the
  rendered prompt is, in this order: the system instruction block, the heading of the
  context, the three context fields (city, club, coach), the biography under its heading
  or else the no-biography sentence, the heading of the question, the question exactly
  as given, and the closing line. The question is neither cut nor re-cased.
\<close>

theorem build_prompt_sections_in_order:
  "build_prompt user_question club town coach coach_intro =
     get_system_prompt @ ''\<newline>\<newline>RETRIEVED CONTEXT:\<newline>'' @
     ''City: '' @ town @ ''\<newline>'' @
     ''Club: '' @ club @ ''\<newline>'' @
     ''Current Coach: '' @ coach @ ''\<newline>\<newline>'' @
     (case coach_intro of
        None \<Rightarrow> no_biography_sentence
      | Some intro \<Rightarrow> if intro = [] then no_biography_sentence
                     else ''Coach Information from Wikipedia:\<newline>'' @ intro) @
     ''\<newline>\<newline>USER QUESTION:\<newline>'' @ user_question @
     ''\<newline>\<newline>Please answer the user's question using the provided context.''"
  by (simp add: build_prompt_def build_context_flat)

text \<open>
  Claim C8, as stated, fails: in the Berlin scenario the prompt does not end with the
  heading of the question followed by the question, because the template closes with one
  more line. The last character of the prompt is the full stop of that line, not the
  question mark.
\<close>

theorem berlin_prompt_not_ending_with_question:
  "\<not> suffix ''USER QUESTION:\<newline>Who is coaching Berlin?''
       (build_prompt ''Who is coaching Berlin?'' ''1. FC Union Berlin'' ''Berlin'' ''Steffen Baumgart''
          (Some ''Steffen Baumgart is a German football manager...''))"
proof
  assume "suffix ''USER QUESTION:\<newline>Who is coaching Berlin?''
       (build_prompt ''Who is coaching Berlin?'' ''1. FC Union Berlin'' ''Berlin'' ''Steffen Baumgart''
          (Some ''Steffen Baumgart is a German football manager...''))"
  then have "last (build_prompt ''Who is coaching Berlin?'' ''1. FC Union Berlin'' ''Berlin''
                ''Steffen Baumgart'' (Some ''Steffen Baumgart is a German football manager...''))
     = last ''USER QUESTION:\<newline>Who is coaching Berlin?''"
    by (rule suffix_last) simp
  then show False
    by (simp add: build_prompt_def)
qed

text \<open>
  Claim C8, amended. In the Berlin scenario the rendered prompt contains
  \<open>Current Coach: Steffen Baumgart\<close> and the biography text, and it ends with the heading
  of the question, the question, a blank line and the closing line
  \<open>Please answer the user's question using the provided context.\<close>
\<close>

theorem berlin_prompt_scenario:
  "contains ''Current Coach: Steffen Baumgart''
     (build_prompt ''Who is coaching Berlin?'' ''1. FC Union Berlin'' ''Berlin'' ''Steffen Baumgart''
          (Some ''Steffen Baumgart is a German football manager...''))
   \<and> contains ''Steffen Baumgart is a German football manager...''
     (build_prompt ''Who is coaching Berlin?'' ''1. FC Union Berlin'' ''Berlin'' ''Steffen Baumgart''
          (Some ''Steffen Baumgart is a German football manager...''))
   \<and> suffix (''USER QUESTION:\<newline>Who is coaching Berlin?'' @
        ''\<newline>\<newline>Please answer the user's question using the provided context.'')
     (build_prompt ''Who is coaching Berlin?'' ''1. FC Union Berlin'' ''Berlin'' ''Steffen Baumgart''
          (Some ''Steffen Baumgart is a German football manager...''))"
proof -
  let ?bio = "''Steffen Baumgart is a German football manager...''"
  let ?p = "build_prompt ''Who is coaching Berlin?'' ''1. FC Union Berlin'' ''Berlin''
              ''Steffen Baumgart'' (Some ?bio)"
  have coach_at: "?p =
        (get_system_prompt @
           ''\<newline>\<newline>RETRIEVED CONTEXT:\<newline>City: Berlin\<newline>Club: 1. FC Union Berlin\<newline>'')
        @ ''Current Coach: Steffen Baumgart''
        @ (''\<newline>\<newline>Coach Information from Wikipedia:\<newline>'' @ ?bio @
           ''\<newline>\<newline>USER QUESTION:\<newline>Who is coaching Berlin?\<newline>\<newline>Please answer the user's question using the provided context.'')"
    by (simp add: build_prompt_def build_context_flat)
  have bio_at: "?p =
        (get_system_prompt @
           ''\<newline>\<newline>RETRIEVED CONTEXT:\<newline>City: Berlin\<newline>Club: 1. FC Union Berlin\<newline>Current Coach: Steffen Baumgart\<newline>\<newline>Coach Information from Wikipedia:\<newline>'')
        @ ?bio
        @ ''\<newline>\<newline>USER QUESTION:\<newline>Who is coaching Berlin?\<newline>\<newline>Please answer the user's question using the provided context.''"
    by (simp add: build_prompt_def build_context_flat)
  have question_at: "?p =
        (get_system_prompt @
           ''\<newline>\<newline>RETRIEVED CONTEXT:\<newline>City: Berlin\<newline>Club: 1. FC Union Berlin\<newline>Current Coach: Steffen Baumgart\<newline>\<newline>Coach Information from Wikipedia:\<newline>''
           @ ?bio @ ''\<newline>\<newline>'')
        @ (''USER QUESTION:\<newline>Who is coaching Berlin?'' @
           ''\<newline>\<newline>Please answer the user's question using the provided context.'')"
    by (simp add: build_prompt_def build_context_flat)
  have "contains ''Current Coach: Steffen Baumgart'' ?p"
    by (subst coach_at) (rule contains_appendI)
  moreover have "contains ?bio ?p"
    by (subst bio_at) (rule contains_appendI)
  moreover have "suffix (''USER QUESTION:\<newline>Who is coaching Berlin?'' @
        ''\<newline>\<newline>Please answer the user's question using the provided context.'') ?p"
    by (subst question_at) (rule suffixI, rule refl)
  ultimately show ?thesis by blast
qed


lemma build_prompt_contains_fields:
  "contains (''City: '' @ town) (build_prompt q club town coach intro)"
  "contains (''Club: '' @ club) (build_prompt q club town coach intro)"
  "contains (''Current Coach: '' @ coach) (build_prompt q club town coach intro)"
proof -
  let ?bio = "case intro of None \<Rightarrow> no_biography_sentence
      | Some b \<Rightarrow> if b = [] then no_biography_sentence
                 else ''Coach Information from Wikipedia:\<newline>'' @ b"
  let ?tail = "''\<newline>\<newline>USER QUESTION:\<newline>'' @ q @
     ''\<newline>\<newline>Please answer the user's question using the provided context.''"
  have "build_prompt q club town coach intro =
      (get_system_prompt @ ''\<newline>\<newline>RETRIEVED CONTEXT:\<newline>'') @ (''City: '' @ town) @
      (''\<newline>Club: '' @ club @ ''\<newline>Current Coach: '' @ coach @ ''\<newline>\<newline>'' @ ?bio @ ?tail)"
    by (simp add: build_prompt_def build_context_flat)
  then show "contains (''City: '' @ town) (build_prompt q club town coach intro)"
    by (simp only: contains_appendI)
  have "build_prompt q club town coach intro =
      (get_system_prompt @ ''\<newline>\<newline>RETRIEVED CONTEXT:\<newline>City: '' @ town @ ''\<newline>'') @ (''Club: '' @ club) @
      (''\<newline>Current Coach: '' @ coach @ ''\<newline>\<newline>'' @ ?bio @ ?tail)"
    by (simp add: build_prompt_def build_context_flat)
  then show "contains (''Club: '' @ club) (build_prompt q club town coach intro)"
    by (simp only: contains_appendI)
  have "build_prompt q club town coach intro =
      (get_system_prompt @ ''\<newline>\<newline>RETRIEVED CONTEXT:\<newline>City: '' @ town @ ''\<newline>Club: '' @ club @ ''\<newline>'') @
      (''Current Coach: '' @ coach) @ (''\<newline>\<newline>'' @ ?bio @ ?tail)"
    by (simp add: build_prompt_def build_context_flat)
  then show "contains (''Current Coach: '' @ coach) (build_prompt q club town coach intro)"
    by (simp only: contains_appendI)
qed

lemma build_prompt_contains_no_biography:
  assumes "intro = None \<or> intro = Some []"
  shows "contains no_biography_sentence (build_prompt q club town coach intro)"
proof -
  from assms have "build_prompt q club town coach intro =
      (get_system_prompt @ ''\<newline>\<newline>RETRIEVED CONTEXT:\<newline>City: '' @ town @ ''\<newline>Club: '' @ club @
         ''\<newline>Current Coach: '' @ coach @ ''\<newline>\<newline>'') @
      no_biography_sentence @
      (''\<newline>\<newline>USER QUESTION:\<newline>'' @ q @
        ''\<newline>\<newline>Please answer the user's question using the provided context.'')"
    by (auto simp add: build_prompt_def build_context_flat)
  then show ?thesis by (simp only: contains_appendI)
qed

lemma build_prompt_contains_no_biography_text:
  assumes "intro = None \<or> intro = Some []"
  shows "contains ''Coach Information: No additional biographical information available from Wikipedia.''
           (build_prompt q club town coach intro)"
  using build_prompt_contains_no_biography[OF assms, of q club town coach]
  by (simp add: no_biography_sentence_def)

lemma build_prompt_not_error:
  "\<not> prefix ''ERROR: '' (build_prompt q club town coach intro)"
  by (simp add: build_prompt_def get_system_prompt_def)


section \<open>Properties of the matcher\<close>

lemma rx_match_Plus:
  assumes "x \<in> set (rx_match (Plus c) (s, g))"
  shows "snd x = g \<and> (\<exists>k. 1 \<le> k \<and> k \<le> length s \<and> fst x = drop k s)"
proof -
  from assms obtain k where k: "1 \<le> k" "k < Suc (length (takeWhile (class_mem c) s))"
    and x: "x = (drop k s, g)"
    by auto
  have "length (takeWhile (class_mem c) s) \<le> length s"
    by (rule length_takeWhile_le)
  with k x show ?thesis by auto
qed

lemma rx_match_Seq:
  "x \<in> set (rx_match (Seq a b) st) \<longleftrightarrow> (\<exists>m \<in> set (rx_match a st). x \<in> set (rx_match b m))"
  by auto

lemma keeps_group_sound:
  "keeps_group r \<Longrightarrow> x \<in> set (rx_match r (s, g)) \<Longrightarrow> snd x = g"
proof (induction r arbitrary: s g x)
  case (Lit l)
  then show ?case by (auto split: if_splits)
next
  case (Plus c)
  then show ?case using rx_match_Plus by blast
next
  case (Opt r)
  then show ?case by (cases x) auto
next
  case (Seq a b)
  from Seq.prems obtain m where m: "m \<in> set (rx_match a (s, g))" "x \<in> set (rx_match b m)"
    unfolding rx_match_Seq by blast
  from Seq.IH(1)[of m s g] Seq.prems m have "snd m = g" by simp
  moreover from Seq.IH(2)[of x "fst m" "snd m"] Seq.prems m have "snd x = snd m" by simp
  ultimately show ?case by simp
next
  case (Group r)
  then show ?case by simp
qed

lemma rx_match_Group_Plus:
  assumes "x \<in> set (rx_match (Group (Plus c)) (s, g))"
  shows "\<exists>t. snd x = Some t \<and> t \<noteq> []"
proof -
  from assms obtain m where m: "m \<in> set (rx_match (Plus c) (s, g))"
    and x: "x = (fst m, Some (take (length s - length (fst m)) s))"
    by (auto simp del: rx_match.simps(2) simp add: case_prod_beta)
  from rx_match_Plus[OF m] obtain k where "1 \<le> k" "k \<le> length s" "fst m = drop k s"
    by blast
  then have "take (length s - length (fst m)) s \<noteq> []" by auto
  with x show ?thesis by simp
qed

lemma sets_group_sound:
  "sets_group r \<Longrightarrow> x \<in> set (rx_match r st) \<Longrightarrow> \<exists>t. snd x = Some t \<and> t \<noteq> []"
proof (induction r arbitrary: st x rule: sets_group.induct)
  case (1 c)
  then show ?case using rx_match_Group_Plus[of x c "fst st" "snd st"] by simp
next
  case (2 a b)
  from "2.prems" obtain m where m: "m \<in> set (rx_match a st)" "x \<in> set (rx_match b m)"
    unfolding rx_match_Seq by blast
  show ?case
  proof (cases "sets_group b")
    case True
    with "2.IH"(1) m show ?thesis by blast
  next
    case False
    with "2.prems" have a: "sets_group a" and b: "keeps_group b" by auto
    from "2.IH"(2)[OF a m(1)] obtain t where "snd m = Some t" "t \<noteq> []" by blast
    moreover from keeps_group_sound[OF b, of x "fst m" "snd m"] m have "snd x = snd m" by simp
    ultimately show ?thesis by simp
  qed
qed simp_all

lemma re_search_Some:
  "re_search r s = Some g \<Longrightarrow> \<exists>s0 x. suffix s0 s \<and> x \<in> set (rx_match r (s0, None)) \<and> snd x = g"
proof (induction s)
  case Nil
  then show ?case by (fastforce split: list.splits)
next
  case (Cons c s)
  show ?case
  proof (cases "rx_match r (c # s, None)")
    case Nil
    with Cons.prems have "re_search r s = Some g" by simp
    from Cons.IH[OF this] obtain s0 x where "suffix s0 s" "x \<in> set (rx_match r (s0, None))" "snd x = g"
      by blast
    then show ?thesis by (blast intro: suffix_ConsI)
  next
    case (Cons m ms)
    with Cons.prems have "snd m = g" by (auto split: prod.splits)
    with Cons show ?thesis by (metis list.set_intros(1) suffix_order.order_refl)
  qed
qed

lemma rx_match_chars:
  "x \<in> set (rx_match r (s, g)) \<Longrightarrow>
     set (fst x) \<subseteq> set s \<and> (snd x = g \<or> (\<exists>t. snd x = Some t \<and> set t \<subseteq> set s))"
proof (induction r arbitrary: s g x)
  case (Lit l)
  then show ?case by (auto split: if_splits dest: in_set_dropD)
next
  case (Plus c)
  from rx_match_Plus[OF Plus.prems] show ?case by (auto dest: in_set_dropD)
next
  case (Opt r)
  show ?case
  proof (cases "x = (s, g)")
    case True
    then show ?thesis by simp
  next
    case False
    with Opt.prems have "x \<in> set (rx_match r (s, g))" by simp
    from Opt.IH[OF this] show ?thesis .
  qed
next
  case (Seq a b)
  from Seq.prems obtain m where m: "m \<in> set (rx_match a (s, g))" "x \<in> set (rx_match b m)"
    unfolding rx_match_Seq by blast
  from Seq.IH(1)[OF m(1)]
  have 1: "set (fst m) \<subseteq> set s" "snd m = g \<or> (\<exists>t. snd m = Some t \<and> set t \<subseteq> set s)" by auto
  from Seq.IH(2)[of x "fst m" "snd m"] m(2)
  have 2: "set (fst x) \<subseteq> set (fst m)" "snd x = snd m \<or> (\<exists>t. snd x = Some t \<and> set t \<subseteq> set (fst m))"
    by auto
  from 1(1) 2(1) have "set (fst x) \<subseteq> set s" by (rule order_trans[rotated])
  moreover have "snd x = g \<or> (\<exists>t. snd x = Some t \<and> set t \<subseteq> set s)"
  proof (cases "snd x = snd m")
    case True
    with 1(2) show ?thesis by simp
  next
    case False
    with 2(2) obtain t where "snd x = Some t" "set t \<subseteq> set (fst m)" by blast
    with 1(1) show ?thesis by auto
  qed
  ultimately show ?case by simp
next
  case (Group r)
  from Group.prems obtain m where m: "m \<in> set (rx_match r (s, g))"
    and x: "x = (fst m, Some (take (length s - length (fst m)) s))"
    by (auto simp add: case_prod_beta)
  from Group.IH[OF m] have "set (fst m) \<subseteq> set s" by simp
  with x show ?case by (auto dest: in_set_takeD)
qed

lemma re_search_chars:
  assumes "re_search r s = Some (Some t)"
  shows "set t \<subseteq> set s"
proof -
  from re_search_Some[OF assms] obtain s0 x where
    s0: "suffix s0 s" and x: "x \<in> set (rx_match r (s0, None))" "snd x = Some t"
    by blast
  from rx_match_chars[OF x(1)] x(2) have "set t \<subseteq> set s0" by auto
  with s0 show ?thesis by (auto dest: set_mono_suffix)
qed

lemma re_search_sets_group:
  assumes "sets_group r" "re_search r s = Some g"
  shows "\<exists>t. g = Some t \<and> t \<noteq> []"
proof -
  from re_search_Some[OF assms(2)] obtain s0 x where
    x: "x \<in> set (rx_match r (s0, None))" "snd x = g"
    by blast
  with sets_group_sound[OF assms(1) x(1)] show ?thesis by simp
qed

lemma patterns_set_group:
  "sets_group pattern1" "sets_group pattern2" "sets_group pattern3"
  "sets_group pattern4" "sets_group pattern5"
  by (simp_all add: pattern1_def pattern2_def pattern3_def pattern4_def pattern5_def)

lemma extract_entity_logic_nonempty:
  "extract_entity_logic s = Some t \<Longrightarrow> t \<noteq> []"
  unfolding extract_entity_logic_def
  by (auto split: option.splits dest: re_search_sets_group[OF patterns_set_group(1)]
      re_search_sets_group[OF patterns_set_group(2)] re_search_sets_group[OF patterns_set_group(3)]
      re_search_sets_group[OF patterns_set_group(4)] re_search_sets_group[OF patterns_set_group(5)])

lemma extract_entity_logic_chars:
  "extract_entity_logic s = Some t \<Longrightarrow> set t \<subseteq> set s"
  unfolding extract_entity_logic_def
  by (auto split: option.splits dest: re_search_chars)

lemma lower_char_idem: "lower_char (lower_char c) = lower_char c"
  by (auto simp: lower_char_def Let_def)

lemma set_strip: "set (strip s) \<subseteq> set s"
  unfolding strip_def by (auto dest!: set_dropWhileD)

lemma extract_city_nonempty: "extract_city q = Some t \<Longrightarrow> t \<noteq> []"
  unfolding extract_city_def by (rule extract_entity_logic_nonempty)

lemma extract_city_lowercase:
  assumes "extract_city q = Some t"
  shows "lower t = t"
proof -
  from assms have "set t \<subseteq> set (strip (lower q))"
    unfolding extract_city_def by (rule extract_entity_logic_chars)
  with set_strip have "set t \<subseteq> set (lower q)" by blast
  then have "\<forall>c \<in> set t. lower_char c = c"
    by (auto simp: lower_def lower_char_idem)
  then show ?thesis
    unfolding lower_def by (simp add: map_idI)
qed


section \<open>Extraction\<close>

text \<open>
  Claim C9 (the code departs from it). The question \<open>Who is heidenheims manager?\<close>
  matches pattern 3 and none of the earlier patterns, and the extractor returns
  \<open>heidenheims\<close>, with the trailing \<open>s\<close>: the greedy \<open>\w+\<close> of the group takes the
  whole word, and the optional \<open>s\<close> after it matches nothing.
\<close>

theorem heidenheims_manager_keeps_trailing_s:
  "re_search pattern1 (strip (lower ''Who is heidenheims manager?'')) = None
   \<and> re_search pattern2 (strip (lower ''Who is heidenheims manager?'')) = None
   \<and> re_search pattern3 (strip (lower ''Who is heidenheims manager?'')) = Some (Some ''heidenheims'')
   \<and> extract_city ''Who is heidenheims manager?'' = Some ''heidenheims''"
  by code_simp



text \<open>
  Claim C3. The extractor returns group 1 of the first pattern, in the order 1 to 5
  (coach or coaching, about, manager, for, in), that matches the normalized question,
  whatever the later patterns would match. In particular, when pattern 1 does not match
  and the \<open>about\<close> pattern does, its group is returned also when the \<open>manager\<close>
  pattern matches.
\<close>

theorem first_matching_pattern_wins:
  assumes "s = strip (lower q)"
  shows "(re_search pattern1 s = Some m \<longrightarrow> extract_city q = m)
       \<and> (re_search pattern1 s = None \<and> re_search pattern2 s = Some m \<longrightarrow> extract_city q = m)
       \<and> (re_search pattern1 s = None \<and> re_search pattern2 s = None \<and> re_search pattern3 s = Some m
            \<longrightarrow> extract_city q = m)
       \<and> (re_search pattern1 s = None \<and> re_search pattern2 s = None \<and> re_search pattern3 s = None
            \<and> re_search pattern4 s = Some m \<longrightarrow> extract_city q = m)
       \<and> (re_search pattern1 s = None \<and> re_search pattern2 s = None \<and> re_search pattern3 s = None
            \<and> re_search pattern4 s = None \<and> re_search pattern5 s = Some m \<longrightarrow> extract_city q = m)
       \<and> (re_search pattern1 s = None \<and> re_search pattern2 s = Some m \<and> re_search pattern3 s = Some m'
            \<longrightarrow> extract_city q = m)"
  using assms by (simp add: extract_city_def extract_entity_logic_def)

text \<open>
  Witness for C3: five questions, one for each pattern being the first to match; in
  four of them a later pattern matches as well, with another token.
\<close>

theorem first_matching_pattern_wins_witness:
  "re_search pattern1 (strip (lower ''Who is coaching Berlin?'')) = Some (Some ''berlin'')
   \<and> extract_city ''Who is coaching Berlin?'' = Some ''berlin''
   \<and> re_search pattern1 (strip (lower ''Tell me about Bayern and Dortmunds manager'')) = None
   \<and> re_search pattern2 (strip (lower ''Tell me about Bayern and Dortmunds manager'')) = Some (Some ''bayern'')
   \<and> re_search pattern3 (strip (lower ''Tell me about Bayern and Dortmunds manager'')) = Some (Some ''dortmunds'')
   \<and> extract_city ''Tell me about Bayern and Dortmunds manager'' = Some ''bayern''
   \<and> re_search pattern2 (strip (lower ''Leipzigs manager for now'')) = None
   \<and> re_search pattern3 (strip (lower ''Leipzigs manager for now'')) = Some (Some ''leipzigs'')
   \<and> re_search pattern4 (strip (lower ''Leipzigs manager for now'')) = Some (Some ''now'')
   \<and> extract_city ''Leipzigs manager for now'' = Some ''leipzigs''
   \<and> re_search pattern3 (strip (lower ''Who is it for Pauli in Hamburg?'')) = None
   \<and> re_search pattern4 (strip (lower ''Who is it for Pauli in Hamburg?'')) = Some (Some ''pauli'')
   \<and> re_search pattern5 (strip (lower ''Who is it for Pauli in Hamburg?'')) = Some (Some ''hamburg'')
   \<and> extract_city ''Who is it for Pauli in Hamburg?'' = Some ''pauli''
   \<and> re_search pattern4 (strip (lower ''Who works in Munich?'')) = None
   \<and> re_search pattern5 (strip (lower ''Who works in Munich?'')) = Some (Some ''munich'')
   \<and> extract_city ''Who works in Munich?'' = Some ''munich''"
proof -
  let ?a = "''Who is coaching Berlin?''"
  let ?b = "''Tell me about Bayern and Dortmunds manager''"
  let ?c = "''Leipzigs manager for now''"
  let ?d = "''Who is it for Pauli in Hamburg?''"
  let ?e = "''Who works in Munich?''"
  have a: "re_search pattern1 (strip (lower ?a)) = Some (Some ''berlin'')"
    by code_simp
  have b: "re_search pattern1 (strip (lower ?b)) = None"
    "re_search pattern2 (strip (lower ?b)) = Some (Some ''bayern'')"
    "re_search pattern3 (strip (lower ?b)) = Some (Some ''dortmunds'')"
    by code_simp+
  have c: "re_search pattern1 (strip (lower ?c)) = None"
    "re_search pattern2 (strip (lower ?c)) = None"
    "re_search pattern3 (strip (lower ?c)) = Some (Some ''leipzigs'')"
    "re_search pattern4 (strip (lower ?c)) = Some (Some ''now'')"
    by code_simp+
  have d: "re_search pattern1 (strip (lower ?d)) = None"
    "re_search pattern2 (strip (lower ?d)) = None"
    "re_search pattern3 (strip (lower ?d)) = None"
    "re_search pattern4 (strip (lower ?d)) = Some (Some ''pauli'')"
    "re_search pattern5 (strip (lower ?d)) = Some (Some ''hamburg'')"
    by code_simp+
  have e: "re_search pattern1 (strip (lower ?e)) = None"
    "re_search pattern2 (strip (lower ?e)) = None"
    "re_search pattern3 (strip (lower ?e)) = None"
    "re_search pattern4 (strip (lower ?e)) = None"
    "re_search pattern5 (strip (lower ?e)) = Some (Some ''munich'')"
    by code_simp+
  from first_matching_pattern_wins[OF refl, of ?a "Some ''berlin''"] a
  have ra: "extract_city ?a = Some ''berlin''" by blast
  from first_matching_pattern_wins[OF refl, of ?b "Some ''bayern''" "Some ''dortmunds''"] b
  have rb: "extract_city ?b = Some ''bayern''" by blast
  from first_matching_pattern_wins[OF refl, of ?c "Some ''leipzigs''"] c
  have rc: "extract_city ?c = Some ''leipzigs''" by blast
  from first_matching_pattern_wins[OF refl, of ?d "Some ''pauli''"] d
  have rd: "extract_city ?d = Some ''pauli''" by blast
  from first_matching_pattern_wins[OF refl, of ?e "Some ''munich''"] e
  have re: "extract_city ?e = Some ''munich''" by blast
  show ?thesis
    by (intro conjI) (fact a b c d e ra rb rc rd re)+
qed


section \<open>Club resolution\<close>

lemma scan_pauli_find:
  "scan_pauli clubs = List.find (\<lambda>c. contains ''pauli'' (lower (club_name c))) clubs"
  by (induction clubs) simp_all

lemma scan_clubs_find:
  "scan_clubs t clubs =
     List.find (\<lambda>c. contains t (lower (city c)) \<or> contains (lower (city c)) t
                     \<or> contains t (lower (club_name c))) clubs"
  by (induction clubs) (simp_all add: Let_def)

text \<open>
  Claim C4. When some club of the roster has \<open>pauli\<close> in its lowercased name, resolving
  the token \<open>pauli\<close> returns the first such club in roster order, whatever the cities of
  the clubs are: the result is the club at the least index whose name contains \<open>pauli\<close>.
\<close>

theorem pauli_special_rule:
  assumes "list_ex (\<lambda>c. contains ''pauli'' (lower (club_name c))) clubs"
  shows "\<exists>i<length clubs.
           find_club_by_city (Some clubs) ''pauli'' = Some (clubs ! i)
           \<and> contains ''pauli'' (lower (club_name (clubs ! i)))
           \<and> (\<forall>j<i. \<not> contains ''pauli'' (lower (club_name (clubs ! j))))"
proof -
  let ?P = "\<lambda>c. contains ''pauli'' (lower (club_name c))"
  from assms obtain c where c: "List.find ?P clubs = Some c"
    by (cases "List.find ?P clubs") (auto simp: find_None_iff list_ex_iff)
  from assms have ne: "clubs \<noteq> []" by auto
  from c ne have "find_club_by_city (Some clubs) ''pauli'' = Some c"
    by (simp add: find_club_by_city_def scan_pauli_find)
  with c show ?thesis
    unfolding find_Some_iff by auto
qed

text \<open>
  Witness for C4: a roster with a club in the town of Paulinenaue, then Hamburger SV and
  FC St. Pauli (both in Hamburg). The general scan would return the first club, by its
  city; the special rule returns FC St. Pauli.
\<close>

theorem pauli_special_rule_witness:
  "list_ex (\<lambda>c. contains ''pauli'' (lower (club_name c)))
     [\<lparr>club_name = ''SV Beispiel'', city = ''Paulinenaue'',
       club_uri = ''http://www.wikidata.org/entity/Q1'', club_qid = ''Q1''\<rparr>,
      \<lparr>club_name = ''Hamburger SV'', city = ''Hamburg'',
       club_uri = ''http://www.wikidata.org/entity/Q51974'', club_qid = ''Q51974''\<rparr>,
      \<lparr>club_name = ''FC St. Pauli'', city = ''Hamburg'',
       club_uri = ''http://www.wikidata.org/entity/Q155226'', club_qid = ''Q155226''\<rparr>]
   \<and> scan_clubs ''pauli''
       [\<lparr>club_name = ''SV Beispiel'', city = ''Paulinenaue'',
         club_uri = ''http://www.wikidata.org/entity/Q1'', club_qid = ''Q1''\<rparr>,
        \<lparr>club_name = ''Hamburger SV'', city = ''Hamburg'',
         club_uri = ''http://www.wikidata.org/entity/Q51974'', club_qid = ''Q51974''\<rparr>,
        \<lparr>club_name = ''FC St. Pauli'', city = ''Hamburg'',
         club_uri = ''http://www.wikidata.org/entity/Q155226'', club_qid = ''Q155226''\<rparr>]
     = Some \<lparr>club_name = ''SV Beispiel'', city = ''Paulinenaue'',
             club_uri = ''http://www.wikidata.org/entity/Q1'', club_qid = ''Q1''\<rparr>
   \<and> find_club_by_city
       (Some [\<lparr>club_name = ''SV Beispiel'', city = ''Paulinenaue'',
               club_uri = ''http://www.wikidata.org/entity/Q1'', club_qid = ''Q1''\<rparr>,
              \<lparr>club_name = ''Hamburger SV'', city = ''Hamburg'',
               club_uri = ''http://www.wikidata.org/entity/Q51974'', club_qid = ''Q51974''\<rparr>,
              \<lparr>club_name = ''FC St. Pauli'', city = ''Hamburg'',
               club_uri = ''http://www.wikidata.org/entity/Q155226'', club_qid = ''Q155226''\<rparr>])
       ''pauli''
     = Some \<lparr>club_name = ''FC St. Pauli'', city = ''Hamburg'',
             club_uri = ''http://www.wikidata.org/entity/Q155226'', club_qid = ''Q155226''\<rparr>"
proof -
  let ?decoy = "\<lparr>club_name = ''SV Beispiel'', city = ''Paulinenaue'',
       club_uri = ''http://www.wikidata.org/entity/Q1'', club_qid = ''Q1''\<rparr>"
  let ?hsv = "\<lparr>club_name = ''Hamburger SV'', city = ''Hamburg'',
       club_uri = ''http://www.wikidata.org/entity/Q51974'', club_qid = ''Q51974''\<rparr>"
  let ?pauli = "\<lparr>club_name = ''FC St. Pauli'', city = ''Hamburg'',
       club_uri = ''http://www.wikidata.org/entity/Q155226'', club_qid = ''Q155226''\<rparr>"
  have h: "list_ex (\<lambda>c. contains ''pauli'' (lower (club_name c))) [?decoy, ?hsv, ?pauli]"
    by code_simp
  have general: "scan_clubs ''pauli'' [?decoy, ?hsv, ?pauli] = Some ?decoy"
    by code_simp
  have decoy: "\<not> contains ''pauli'' (lower (club_name ?decoy))"
    and hsv: "\<not> contains ''pauli'' (lower (club_name ?hsv))"
    by code_simp+
  from pauli_special_rule[OF h] obtain i where i: "i < length [?decoy, ?hsv, ?pauli]"
    "find_club_by_city (Some [?decoy, ?hsv, ?pauli]) ''pauli'' = Some ([?decoy, ?hsv, ?pauli] ! i)"
    "contains ''pauli'' (lower (club_name ([?decoy, ?hsv, ?pauli] ! i)))"
    by blast
  from i(1) have "i = 0 \<or> i = 1 \<or> i = 2" by auto
  with i(3) decoy hsv have "i = 2" by auto
  with i(2) have "find_club_by_city (Some [?decoy, ?hsv, ?pauli]) ''pauli'' = Some ?pauli"
    by simp
  with h general show ?thesis by simp
qed

text \<open>
  Claim C10. When the token is \<open>pauli\<close> and no club name contains \<open>pauli\<close>, the special
  rule returns nothing and resolution is the general scan of the roster; since no name
  matches, it returns the first club whose lowercased city contains \<open>pauli\<close> or is
  contained in it.
\<close>

theorem pauli_falls_through:
  assumes "\<not> list_ex (\<lambda>c. contains ''pauli'' (lower (club_name c))) clubs"
  shows "find_club_by_city (Some clubs) ''pauli'' = scan_clubs ''pauli'' clubs
       \<and> scan_clubs ''pauli'' clubs =
           List.find (\<lambda>c. contains ''pauli'' (lower (city c)) \<or> contains (lower (city c)) ''pauli'') clubs"
proof -
  let ?P = "\<lambda>c. contains ''pauli'' (lower (club_name c))"
  from assms have none: "List.find ?P clubs = None"
    by (simp add: find_None_iff list_ex_iff)
  then have 1: "find_club_by_city (Some clubs) ''pauli'' = scan_clubs ''pauli'' clubs"
    by (cases clubs) (simp_all add: find_club_by_city_def scan_pauli_find)
  from assms have "\<forall>c \<in> set clubs. \<not> ?P c" by (simp add: list_ex_iff)
  then have 2: "scan_clubs ''pauli'' clubs =
           List.find (\<lambda>c. contains ''pauli'' (lower (city c)) \<or> contains (lower (city c)) ''pauli'') clubs"
    unfolding scan_clubs_find by (intro find_cong) auto
  from 1 2 show ?thesis by simp
qed

text \<open>Witness for C10: a club in the town of Paulinenaue is returned for \<open>pauli\<close>.\<close>

theorem pauli_falls_through_witness:
  "\<not> list_ex (\<lambda>c. contains ''pauli'' (lower (club_name c)))
       [\<lparr>club_name = ''SV Beispiel'', city = ''Paulinenaue'',
         club_uri = ''http://www.wikidata.org/entity/Q1'', club_qid = ''Q1''\<rparr>]
   \<and> find_club_by_city
       (Some [\<lparr>club_name = ''SV Beispiel'', city = ''Paulinenaue'',
               club_uri = ''http://www.wikidata.org/entity/Q1'', club_qid = ''Q1''\<rparr>])
       ''pauli''
     = Some \<lparr>club_name = ''SV Beispiel'', city = ''Paulinenaue'',
             club_uri = ''http://www.wikidata.org/entity/Q1'', club_qid = ''Q1''\<rparr>"
proof -
  let ?c = "\<lparr>club_name = ''SV Beispiel'', city = ''Paulinenaue'',
         club_uri = ''http://www.wikidata.org/entity/Q1'', club_qid = ''Q1''\<rparr>"
  have h: "\<not> list_ex (\<lambda>c. contains ''pauli'' (lower (club_name c))) [?c]"
    by code_simp
  have f: "List.find (\<lambda>c. contains ''pauli'' (lower (city c)) \<or> contains (lower (city c)) ''pauli'') [?c]
             = Some ?c"
    by code_simp
  from pauli_falls_through[OF h] f h show ?thesis by simp
qed


text \<open>
  Claim C2, as stated, fails: \<open>find_club_by_city\<close> compares its token as it is given
  with the lowercased city and club names, so on the roster with 1. FC Union Berlin the
  tokens \<open>BERLIN\<close> and \<open>Berlin\<close> resolve to nothing and \<open>berlin\<close> to the club.
\<close>

theorem resolve_token_case_sensitive:
  "find_club_by_city
     (Some [\<lparr>club_name = ''1. FC Union Berlin'', city = ''Berlin'',
             club_uri = ''http://www.wikidata.org/entity/Q141971'', club_qid = ''Q141971''\<rparr>]) ''BERLIN''
     = None
   \<and> find_club_by_city
     (Some [\<lparr>club_name = ''1. FC Union Berlin'', city = ''Berlin'',
             club_uri = ''http://www.wikidata.org/entity/Q141971'', club_qid = ''Q141971''\<rparr>]) ''Berlin''
     = None
   \<and> find_club_by_city
     (Some [\<lparr>club_name = ''1. FC Union Berlin'', city = ''Berlin'',
             club_uri = ''http://www.wikidata.org/entity/Q141971'', club_qid = ''Q141971''\<rparr>]) ''berlin''
     = Some \<lparr>club_name = ''1. FC Union Berlin'', city = ''Berlin'',
             club_uri = ''http://www.wikidata.org/entity/Q141971'', club_qid = ''Q141971''\<rparr>"
  by code_simp

lemma find_positional:
  assumes "list_all2 R xs ys" and "\<And>a b. R a b \<Longrightarrow> P a = Q b"
  shows "(List.find P xs = None \<and> List.find Q ys = None)
       \<or> (\<exists>i<length xs. List.find P xs = Some (xs ! i) \<and> List.find Q ys = Some (ys ! i))"
  using assms(1)
proof (induction rule: list_all2_induct)
  case Nil
  then show ?case by simp
next
  case (Cons x xs y ys)
  from Cons.hyps(1) assms(2) have pq: "P x = Q y" by blast
  show ?case
  proof (cases "P x")
    case True
    with pq have "List.find P (x # xs) = Some ((x # xs) ! 0) \<and> List.find Q (y # ys) = Some ((y # ys) ! 0)"
      by simp
    then show ?thesis by blast
  next
    case False
    with pq have f: "List.find P (x # xs) = List.find P xs" "List.find Q (y # ys) = List.find Q ys"
      by simp_all
    from Cons.IH show ?thesis
    proof
      assume "List.find P xs = None \<and> List.find Q ys = None"
      with f show ?thesis by simp
    next
      assume "\<exists>i<length xs. List.find P xs = Some (xs ! i) \<and> List.find Q ys = Some (ys ! i)"
      then obtain i where "i < length xs" "List.find P xs = Some (xs ! i)" "List.find Q ys = Some (ys ! i)"
        by blast
      with f have "Suc i < length (x # xs) \<and> List.find P (x # xs) = Some ((x # xs) ! Suc i)
           \<and> List.find Q (y # ys) = Some ((y # ys) ! Suc i)"
        by simp
      then show ?thesis by blast
    qed
  qed
qed

lemma find_club_by_city_positional:
  assumes "list_all2 (\<lambda>a b. lower (city a) = lower (city b) \<and> lower (club_name a) = lower (club_name b)) r1 r2"
  shows "(find_club_by_city (Some r1) t = None \<and> find_club_by_city (Some r2) t = None)
       \<or> (\<exists>i<length r1. find_club_by_city (Some r1) t = Some (r1 ! i)
                         \<and> find_club_by_city (Some r2) t = Some (r2 ! i))"
proof -
  let ?R = "\<lambda>a b. lower (city a) = lower (city b) \<and> lower (club_name a) = lower (club_name b)"
  let ?P = "\<lambda>c. contains ''pauli'' (lower (club_name c))"
  let ?G = "\<lambda>c. contains t (lower (city c)) \<or> contains (lower (city c)) t
                     \<or> contains t (lower (club_name c))"
  have special: "(List.find ?P r1 = None \<and> List.find ?P r2 = None)
       \<or> (\<exists>i<length r1. List.find ?P r1 = Some (r1 ! i) \<and> List.find ?P r2 = Some (r2 ! i))"
    by (rule find_positional[OF assms]) simp
  have general: "(List.find ?G r1 = None \<and> List.find ?G r2 = None)
       \<or> (\<exists>i<length r1. List.find ?G r1 = Some (r1 ! i) \<and> List.find ?G r2 = Some (r2 ! i))"
    by (rule find_positional[OF assms]) simp
  from assms have len: "length r1 = length r2" by (rule list_all2_lengthD)
  show ?thesis
  proof (cases "r1 = []")
    case True
    with len show ?thesis by (simp add: find_club_by_city_def)
  next
    case False
    with len have ne: "r1 \<noteq> []" "r2 \<noteq> []" by auto
    show ?thesis
    proof (cases "t = ''pauli'' \<and> List.find ?P r1 \<noteq> None")
      case True
      with special obtain i where "i < length r1" "List.find ?P r1 = Some (r1 ! i)"
        "List.find ?P r2 = Some (r2 ! i)" by auto
      with True ne have "i < length r1 \<and> find_club_by_city (Some r1) t = Some (r1 ! i)
            \<and> find_club_by_city (Some r2) t = Some (r2 ! i)"
        by (simp add: find_club_by_city_def scan_pauli_find)
      then show ?thesis by blast
    next
      case False
      with special have "t \<noteq> ''pauli'' \<or> (List.find ?P r1 = None \<and> List.find ?P r2 = None)"
        by auto
      with ne have "find_club_by_city (Some r1) t = List.find ?G r1"
        "find_club_by_city (Some r2) t = List.find ?G r2"
        by (auto simp: find_club_by_city_def scan_pauli_find scan_clubs_find)
      with general show ?thesis by simp
    qed
  qed
qed

lemma find_club_by_city_found_iff:
  "find_club_by_city (Some r) t \<noteq> None \<longleftrightarrow>
     list_ex (\<lambda>c. contains t (lower (city c)) \<or> contains (lower (city c)) t
                    \<or> contains t (lower (club_name c))) r"
proof (cases "r = []")
  case True
  then show ?thesis by (simp add: find_club_by_city_def)
next
  case False
  let ?P = "\<lambda>c. contains ''pauli'' (lower (club_name c))"
  show ?thesis
  proof (cases "t = ''pauli'' \<and> List.find ?P r \<noteq> None")
    case True
    then obtain c where c: "List.find ?P r = Some c" by auto
    then have "c \<in> set r" "?P c" by (auto simp: find_Some_iff)
    with True have "list_ex (\<lambda>c. contains t (lower (city c)) \<or> contains (lower (city c)) t
                    \<or> contains t (lower (club_name c))) r"
      by (auto simp: list_ex_iff)
    moreover from True c False have "find_club_by_city (Some r) t \<noteq> None"
      by (simp add: find_club_by_city_def scan_pauli_find)
    ultimately show ?thesis by simp
  next
    case False
    with \<open>r \<noteq> []\<close> have "find_club_by_city (Some r) t = scan_clubs t r"
      by (auto simp: find_club_by_city_def scan_pauli_find)
    then show ?thesis
      by (auto simp: scan_clubs_find find_None_iff list_ex_iff)
  qed
qed

text \<open>
  Claim C2, amended. Resolution is case-insensitive on the lowercased token, which is
  what the extractor supplies. For two casings of a token and two rosters that agree up
  to the letter case of their city and club names, \<open>find_club_by_city\<close> on the
  lowercased tokens finds nothing in both rosters or the club at the same position in
  both; it finds a club exactly when the token matches the lowercased city or club name
  of some club. Two questions that differ only in letter case give the same extracted
  token, that token is lowercase, and the two questions resolve to the same position.
\<close>

theorem resolution_case_insensitive_on_lowercase_token:
  assumes "lower t1 = lower t2"
    and "list_all2 (\<lambda>a b. lower (city a) = lower (city b) \<and> lower (club_name a) = lower (club_name b)) r1 r2"
    and "lower q1 = lower q2"
  shows "((find_club_by_city (Some r1) (lower t1) = None \<and> find_club_by_city (Some r2) (lower t2) = None)
          \<or> (\<exists>i<length r1. find_club_by_city (Some r1) (lower t1) = Some (r1 ! i)
                            \<and> find_club_by_city (Some r2) (lower t2) = Some (r2 ! i)))
       \<and> (find_club_by_city (Some r1) (lower t1) \<noteq> None \<longleftrightarrow>
            list_ex (\<lambda>c. contains (lower t1) (lower (city c)) \<or> contains (lower (city c)) (lower t1)
                          \<or> contains (lower t1) (lower (club_name c))) r1)
       \<and> extract_city q1 = extract_city q2
       \<and> (\<forall>t. extract_city q1 = Some t \<longrightarrow> lower t = t)
       \<and> ((Option.bind (extract_city q1) (find_club_by_city (Some r1)) = None
            \<and> Option.bind (extract_city q2) (find_club_by_city (Some r2)) = None)
          \<or> (\<exists>i<length r1. Option.bind (extract_city q1) (find_club_by_city (Some r1)) = Some (r1 ! i)
                     \<and> Option.bind (extract_city q2) (find_club_by_city (Some r2)) = Some (r2 ! i)))"
proof -
  from assms(3) have same: "extract_city q1 = extract_city q2"
    by (simp add: extract_city_def)
  have low: "lower t = t" if "extract_city q1 = Some t" for t
    using that by (rule extract_city_lowercase)
  have tok: "(find_club_by_city (Some r1) (lower t1) = None \<and> find_club_by_city (Some r2) (lower t2) = None)
          \<or> (\<exists>i<length r1. find_club_by_city (Some r1) (lower t1) = Some (r1 ! i)
                            \<and> find_club_by_city (Some r2) (lower t2) = Some (r2 ! i))"
    using find_club_by_city_positional[OF assms(2), of "lower t1"] assms(1) by simp
  have pipe: "(Option.bind (extract_city q1) (find_club_by_city (Some r1)) = None
            \<and> Option.bind (extract_city q2) (find_club_by_city (Some r2)) = None)
          \<or> (\<exists>i<length r1. Option.bind (extract_city q1) (find_club_by_city (Some r1)) = Some (r1 ! i)
                     \<and> Option.bind (extract_city q2) (find_club_by_city (Some r2)) = Some (r2 ! i))"
  proof (cases "extract_city q1")
    case None
    with same show ?thesis by simp
  next
    case (Some t)
    with same have e2: "extract_city q2 = Some t" by simp
    from find_club_by_city_positional[OF assms(2), of t] show ?thesis
      by (simp add: Some e2)
  qed
  have found: "find_club_by_city (Some r1) (lower t1) \<noteq> None \<longleftrightarrow>
            list_ex (\<lambda>c. contains (lower t1) (lower (city c)) \<or> contains (lower (city c)) (lower t1)
                          \<or> contains (lower t1) (lower (club_name c))) r1"
    by (rule find_club_by_city_found_iff)
  from low have low': "\<forall>t. extract_city q1 = Some t \<longrightarrow> lower t = t" by blast
  show ?thesis
    by (intro conjI) (fact tok found same low' pipe)+
qed

text \<open>
  Witness for C2: the tokens \<open>BERLIN\<close> and \<open>Berlin\<close>, lowercased, against a roster
  written in capitals and the same roster in mixed case: the second club is found in both.
\<close>

theorem resolution_case_insensitive_on_lowercase_token_witness:
  "lower ''BERLIN'' = lower ''Berlin''
   \<and> list_all2 (\<lambda>a b. lower (city a) = lower (city b) \<and> lower (club_name a) = lower (club_name b))
       [\<lparr>club_name = ''FC BAYERN MUNICH'', city = ''MUNICH'',
         club_uri = ''http://www.wikidata.org/entity/Q15789'', club_qid = ''Q15789''\<rparr>,
        \<lparr>club_name = ''1. FC UNION BERLIN'', city = ''BERLIN'',
         club_uri = ''http://www.wikidata.org/entity/Q141971'', club_qid = ''Q141971''\<rparr>]
       [\<lparr>club_name = ''FC Bayern Munich'', city = ''Munich'',
         club_uri = ''http://www.wikidata.org/entity/Q15789'', club_qid = ''Q15789''\<rparr>,
        \<lparr>club_name = ''1. FC Union Berlin'', city = ''Berlin'',
         club_uri = ''http://www.wikidata.org/entity/Q141971'', club_qid = ''Q141971''\<rparr>]
   \<and> lower ''Who is coaching BERLIN?'' = lower ''Who is coaching Berlin?''
   \<and> find_club_by_city
       (Some [\<lparr>club_name = ''FC BAYERN MUNICH'', city = ''MUNICH'',
               club_uri = ''http://www.wikidata.org/entity/Q15789'', club_qid = ''Q15789''\<rparr>,
              \<lparr>club_name = ''1. FC UNION BERLIN'', city = ''BERLIN'',
               club_uri = ''http://www.wikidata.org/entity/Q141971'', club_qid = ''Q141971''\<rparr>])
       (lower ''BERLIN'')
     = Some \<lparr>club_name = ''1. FC UNION BERLIN'', city = ''BERLIN'',
             club_uri = ''http://www.wikidata.org/entity/Q141971'', club_qid = ''Q141971''\<rparr>
   \<and> find_club_by_city
       (Some [\<lparr>club_name = ''FC Bayern Munich'', city = ''Munich'',
               club_uri = ''http://www.wikidata.org/entity/Q15789'', club_qid = ''Q15789''\<rparr>,
              \<lparr>club_name = ''1. FC Union Berlin'', city = ''Berlin'',
               club_uri = ''http://www.wikidata.org/entity/Q141971'', club_qid = ''Q141971''\<rparr>])
       (lower ''Berlin'')
     = Some \<lparr>club_name = ''1. FC Union Berlin'', city = ''Berlin'',
             club_uri = ''http://www.wikidata.org/entity/Q141971'', club_qid = ''Q141971''\<rparr>
   \<and> extract_city ''Who is coaching BERLIN?'' = Some ''berlin''
   \<and> extract_city ''Who is coaching Berlin?'' = Some ''berlin''
   \<and> lower ''berlin'' = ''berlin''
   \<and> Option.bind (extract_city ''Who is coaching Berlin?'')
        (find_club_by_city
          (Some [\<lparr>club_name = ''FC Bayern Munich'', city = ''Munich'',
                  club_uri = ''http://www.wikidata.org/entity/Q15789'', club_qid = ''Q15789''\<rparr>,
                 \<lparr>club_name = ''1. FC Union Berlin'', city = ''Berlin'',
                  club_uri = ''http://www.wikidata.org/entity/Q141971'', club_qid = ''Q141971''\<rparr>]))
      = Some \<lparr>club_name = ''1. FC Union Berlin'', city = ''Berlin'',
              club_uri = ''http://www.wikidata.org/entity/Q141971'', club_qid = ''Q141971''\<rparr>"
proof -
  let ?B = "\<lparr>club_name = ''FC BAYERN MUNICH'', city = ''MUNICH'',
         club_uri = ''http://www.wikidata.org/entity/Q15789'', club_qid = ''Q15789''\<rparr>"
  let ?U = "\<lparr>club_name = ''1. FC UNION BERLIN'', city = ''BERLIN'',
         club_uri = ''http://www.wikidata.org/entity/Q141971'', club_qid = ''Q141971''\<rparr>"
  let ?b = "\<lparr>club_name = ''FC Bayern Munich'', city = ''Munich'',
         club_uri = ''http://www.wikidata.org/entity/Q15789'', club_qid = ''Q15789''\<rparr>"
  let ?u = "\<lparr>club_name = ''1. FC Union Berlin'', city = ''Berlin'',
         club_uri = ''http://www.wikidata.org/entity/Q141971'', club_qid = ''Q141971''\<rparr>"
  let ?q1 = "''Who is coaching BERLIN?''"
  let ?q2 = "''Who is coaching Berlin?''"
  have t: "lower ''BERLIN'' = lower ''Berlin''" by code_simp
  have r: "list_all2 (\<lambda>a b. lower (city a) = lower (city b) \<and> lower (club_name a) = lower (club_name b))
             [?B, ?U] [?b, ?u]"
    by code_simp
  have q: "lower ?q1 = lower ?q2" by code_simp
  have e1: "extract_city ?q1 = Some ''berlin''" by code_simp
  have f1: "find_club_by_city (Some [?B, ?U]) (lower ''BERLIN'') = Some ?U" by code_simp
  have BU: "?B \<noteq> ?U" by simp
  note inst = resolution_case_insensitive_on_lowercase_token[OF t r q]
  from inst f1 obtain i where i: "i < length [?B, ?U]" "Some ?U = Some ([?B, ?U] ! i)"
    "find_club_by_city (Some [?b, ?u]) (lower ''Berlin'') = Some ([?b, ?u] ! i)"
    by auto
  from i(1) have "i = 0 \<or> i = 1" by auto
  with i(2) BU have "i = 1" by auto
  with i(3) have f2: "find_club_by_city (Some [?b, ?u]) (lower ''Berlin'') = Some ?u" by simp
  from inst e1 have e2: "extract_city ?q2 = Some ''berlin''" by simp
  from inst e1 have low: "lower ''berlin'' = ''berlin''" by blast
  have lb: "lower ''Berlin'' = ''berlin''" by code_simp
  from f2 e2 lb have p2: "Option.bind (extract_city ?q2) (find_club_by_city (Some [?b, ?u])) = Some ?u"
    by simp
  show ?thesis
    by (intro conjI) (fact t r q f1 f2 e1 e2 low p2)+
qed


section \<open>The pipeline\<close>

lemma find_club_by_city_no_roster:
  "cache = None \<or> cache = Some [] \<Longrightarrow> find_club_by_city cache t = None"
  by (auto simp: find_club_by_city_def)

text \<open>
  Claim C6. With the roster cache absent or empty, \<open>find_club_by_city\<close> returns nothing
  for every token, and \<open>process_query\<close> returns an error response (the extraction miss,
  or the resolution miss for the extracted token) and leaves the session as it was: no
  request has been added to those sent.
\<close>

theorem no_roster_fails_fast:
  assumes "clubs_cache st = None \<or> clubs_cache st = Some []"
  shows "find_club_by_city (clubs_cache st) t = None
       \<and> snd (process_query sv st q) = st
       \<and> (fst (process_query sv st q) = format_error_response extraction_miss_msg
          \<or> (\<exists>t'. extract_city q = Some t' \<and>
                fst (process_query sv st q) = format_error_response (resolution_miss_msg t')))"
proof -
  have none: "find_club_by_city (clubs_cache st) u = None" for u
    using assms by (rule find_club_by_city_no_roster)
  show ?thesis
  proof (cases "extract_city q")
    case None
    then show ?thesis
      by (simp add: none process_query_def process_query_try_def)
  next
    case (Some t')
    then have "t' \<noteq> []" by (rule extract_city_nonempty)
    with Some show ?thesis
      by (simp add: none process_query_def process_query_try_def)
  qed
qed

text \<open>Witness for C6: one query with the cache absent, one with it empty.\<close>

theorem no_roster_fails_fast_witness:
  "find_club_by_city None ''berlin'' = None
   \<and> process_query \<lparr>sparql_coach = (\<lambda>q. Inl Timeout), wikipedia_get = (\<lambda>n. Inl Timeout)\<rparr>
        \<lparr>clubs_cache = None, requests = []\<rparr> ''Who is coaching Berlin?''
      = (format_error_response (resolution_miss_msg ''berlin''), \<lparr>clubs_cache = None, requests = []\<rparr>)
   \<and> find_club_by_city (Some []) ''berlin'' = None
   \<and> process_query \<lparr>sparql_coach = (\<lambda>q. Inl Timeout), wikipedia_get = (\<lambda>n. Inl Timeout)\<rparr>
        \<lparr>clubs_cache = Some [], requests = []\<rparr> ''Tell me something''
      = (format_error_response extraction_miss_msg, \<lparr>clubs_cache = Some [], requests = []\<rparr>)"
proof -
  let ?sv = "\<lparr>sparql_coach = (\<lambda>q. Inl Timeout), wikipedia_get = (\<lambda>n. Inl Timeout)\<rparr>"
  let ?st1 = "\<lparr>clubs_cache = None, requests = []\<rparr>"
  let ?st2 = "\<lparr>clubs_cache = Some [], requests = []\<rparr>"
  have e1: "extract_city ''Who is coaching Berlin?'' = Some ''berlin''" by code_simp
  have e2: "extract_city ''Tell me something'' = None" by code_simp
  have n1: "format_error_response (resolution_miss_msg ''berlin'') \<noteq> format_error_response extraction_miss_msg"
    by (simp add: format_error_response_def resolution_miss_msg_def extraction_miss_msg_def)
  from no_roster_fails_fast[of ?st1 "''berlin''" ?sv "''Who is coaching Berlin?''"] e1
  have 1: "find_club_by_city None ''berlin'' = None"
    "snd (process_query ?sv ?st1 ''Who is coaching Berlin?'') = ?st1"
    "fst (process_query ?sv ?st1 ''Who is coaching Berlin?'') = format_error_response extraction_miss_msg
     \<or> fst (process_query ?sv ?st1 ''Who is coaching Berlin?'') = format_error_response (resolution_miss_msg ''berlin'')"
    by auto
  from no_roster_fails_fast[of ?st2 "''berlin''" ?sv "''Tell me something''"] e2
  have 2: "find_club_by_city (Some []) ''berlin'' = None"
    "snd (process_query ?sv ?st2 ''Tell me something'') = ?st2"
    "fst (process_query ?sv ?st2 ''Tell me something'') = format_error_response extraction_miss_msg"
    by auto
  have 3: "fst (process_query ?sv ?st1 ''Who is coaching Berlin?'') = format_error_response (resolution_miss_msg ''berlin'')"
    by (simp add: process_query_def process_query_try_def e1 find_club_by_city_def)
  from 1 2 3 show ?thesis by (simp add: prod_eq_iff)
qed


lemma format_error_response_prefix: "prefix ''ERROR: '' (format_error_response msg)"
  by (simp add: format_error_response_def)

lemma build_prompt_prefix: "prefix ''SYSTEM PROMPT:'' (build_prompt q club town coach intro)"
  by (simp add: build_prompt_def get_system_prompt_def)

lemma process_query_try_cache:
  "clubs_cache (snd (process_query_try sv st q)) = clubs_cache st"
  by (simp add: process_query_try_def split: option.split prod.split sum.split)

lemma process_query_try_shape:
  "(\<exists>msg. fst (process_query_try sv st q) = Inr (format_error_response msg))
   \<or> (\<exists>club town coach intro. fst (process_query_try sv st q) = Inr (build_prompt q club town coach intro))
   \<or> (\<exists>e. fst (process_query_try sv st q) = Inl e)"
  by (simp add: process_query_try_def split: option.split prod.split sum.split) blast

lemma process_query_success:
  assumes "extract_city q = Some t"
    and "find_club_by_city (clubs_cache st) t = Some c"
    and "sparql_coach sv (club_qid c) = Inr res"
    and "process_coach_results res = Some k"
  shows "process_query sv st q =
           (build_prompt q (club_name c) (city c) (name k)
              (fst (get_coach_intro sv (name k) (requests st @ [CoachQuery (club_qid c)]))),
            st\<lparr>requests := requests st @ [CoachQuery (club_qid c), IntroRequest (name k)]\<rparr>)"
proof -
  from assms(1) have "t \<noteq> []" by (rule extract_city_nonempty)
  with assms show ?thesis
    by (simp add: process_query_def process_query_try_def get_coach_for_club_def
        get_coach_intro_def split: sum.splits)
qed

text \<open>
  Claim C1. \<open>process_query\<close> returns a string for every question: an error response or
  a prompt. An extraction miss, a resolution miss and a coach miss each give the error
  response with their own message; a failure of the knowledge-graph query is an
  exception of the \<open>try\<close> block, and every exception of the \<open>try\<close> block gives the
  error response with the generic message. The roster cache is the same after the query
  as before.
\<close>

theorem process_query_never_raises:
  "clubs_cache (snd (process_query sv st q)) = clubs_cache st
   \<and> (prefix ''ERROR: '' (fst (process_query sv st q))
      \<or> prefix ''SYSTEM PROMPT:'' (fst (process_query sv st q)))
   \<and> (extract_city q = None \<longrightarrow>
        fst (process_query sv st q) = format_error_response extraction_miss_msg)
   \<and> (extract_city q = Some t \<and> find_club_by_city (clubs_cache st) t = None \<longrightarrow>
        fst (process_query sv st q) = format_error_response (resolution_miss_msg t))
   \<and> (extract_city q = Some t \<and> find_club_by_city (clubs_cache st) t = Some c
        \<and> sparql_coach sv (club_qid c) = Inr res \<and> process_coach_results res = None \<longrightarrow>
        fst (process_query sv st q) = format_error_response (coach_miss_msg (club_name c)))
   \<and> (extract_city q = Some t \<and> find_club_by_city (clubs_cache st) t = Some c
        \<and> sparql_coach sv (club_qid c) = Inl e \<longrightarrow>
        fst (process_query_try sv st q) = Inl e)
   \<and> (fst (process_query_try sv st q) = Inl e \<longrightarrow>
        fst (process_query sv st q) = format_error_response unexpected_error_msg)"
proof (intro conjI impI)
  show "clubs_cache (snd (process_query sv st q)) = clubs_cache st"
    using process_query_try_cache[of sv st q]
    by (auto simp: process_query_def split: prod.split sum.split)
next
  show "prefix ''ERROR: '' (fst (process_query sv st q))
      \<or> prefix ''SYSTEM PROMPT:'' (fst (process_query sv st q))"
    using process_query_try_shape[of sv st q]
    by (auto simp: process_query_def format_error_response_prefix build_prompt_prefix
        split: prod.split sum.split)
next
  assume "extract_city q = None"
  then show "fst (process_query sv st q) = format_error_response extraction_miss_msg"
    by (simp add: process_query_def process_query_try_def)
next
  assume a: "extract_city q = Some t \<and> find_club_by_city (clubs_cache st) t = None"
  then have "t \<noteq> []" by (blast dest: extract_city_nonempty)
  with a show "fst (process_query sv st q) = format_error_response (resolution_miss_msg t)"
    by (simp add: process_query_def process_query_try_def)
next
  assume a: "extract_city q = Some t \<and> find_club_by_city (clubs_cache st) t = Some c
        \<and> sparql_coach sv (club_qid c) = Inr res \<and> process_coach_results res = None"
  then have "t \<noteq> []" by (blast dest: extract_city_nonempty)
  with a show "fst (process_query sv st q) = format_error_response (coach_miss_msg (club_name c))"
    by (simp add: process_query_def process_query_try_def get_coach_for_club_def)
next
  assume a: "extract_city q = Some t \<and> find_club_by_city (clubs_cache st) t = Some c
        \<and> sparql_coach sv (club_qid c) = Inl e"
  then have "t \<noteq> []" by (blast dest: extract_city_nonempty)
  with a show "fst (process_query_try sv st q) = Inl e"
    by (simp add: process_query_try_def get_coach_for_club_def)
next
  assume "fst (process_query_try sv st q) = Inl e"
  then show "fst (process_query sv st q) = format_error_response unexpected_error_msg"
    by (cases "process_query_try sv st q") (simp add: process_query_def)
qed

text \<open>
  Witness for C1: on the roster with 1. FC Union Berlin, a question with no pattern, a
  question about a town that has no club, a coach query with no rows, and a coach query
  that times out.
\<close>

theorem process_query_never_raises_witness:
  "extract_city ''Tell me something'' = None
   \<and> fst (process_query \<lparr>sparql_coach = (\<lambda>club. Inl Timeout), wikipedia_get = (\<lambda>title. Inl Timeout)\<rparr>
        \<lparr>clubs_cache = Some [\<lparr>club_name = ''1. FC Union Berlin'', city = ''Berlin'',
                club_uri = ''http://www.wikidata.org/entity/Q141971'', club_qid = ''Q141971''\<rparr>],
         requests = []\<rparr>
        ''Tell me something'')
      = format_error_response extraction_miss_msg
   \<and> extract_city ''Who is coaching Dresden?'' = Some ''dresden''
   \<and> fst (process_query \<lparr>sparql_coach = (\<lambda>club. Inl Timeout), wikipedia_get = (\<lambda>title. Inl Timeout)\<rparr>
        \<lparr>clubs_cache = Some [\<lparr>club_name = ''1. FC Union Berlin'', city = ''Berlin'',
                club_uri = ''http://www.wikidata.org/entity/Q141971'', club_qid = ''Q141971''\<rparr>],
         requests = []\<rparr>
        ''Who is coaching Dresden?'')
      = format_error_response (resolution_miss_msg ''dresden'')
   \<and> fst (process_query \<lparr>sparql_coach = (\<lambda>club. Inr (Some [])), wikipedia_get = (\<lambda>title. Inl Timeout)\<rparr>
        \<lparr>clubs_cache = Some [\<lparr>club_name = ''1. FC Union Berlin'', city = ''Berlin'',
                club_uri = ''http://www.wikidata.org/entity/Q141971'', club_qid = ''Q141971''\<rparr>],
         requests = []\<rparr>
        ''Who is coaching Berlin?'')
      = format_error_response (coach_miss_msg ''1. FC Union Berlin'')
   \<and> fst (process_query_try \<lparr>sparql_coach = (\<lambda>club. Inl Timeout), wikipedia_get = (\<lambda>title. Inl Timeout)\<rparr>
        \<lparr>clubs_cache = Some [\<lparr>club_name = ''1. FC Union Berlin'', city = ''Berlin'',
                club_uri = ''http://www.wikidata.org/entity/Q141971'', club_qid = ''Q141971''\<rparr>],
         requests = []\<rparr>
        ''Who is coaching Berlin?'')
      = Inl Timeout
   \<and> fst (process_query \<lparr>sparql_coach = (\<lambda>club. Inl Timeout), wikipedia_get = (\<lambda>title. Inl Timeout)\<rparr>
        \<lparr>clubs_cache = Some [\<lparr>club_name = ''1. FC Union Berlin'', city = ''Berlin'',
                club_uri = ''http://www.wikidata.org/entity/Q141971'', club_qid = ''Q141971''\<rparr>],
         requests = []\<rparr>
        ''Who is coaching Berlin?'')
      = format_error_response unexpected_error_msg
   \<and> clubs_cache (snd (process_query \<lparr>sparql_coach = (\<lambda>club. Inl Timeout), wikipedia_get = (\<lambda>title. Inl Timeout)\<rparr>
        \<lparr>clubs_cache = Some [\<lparr>club_name = ''1. FC Union Berlin'', city = ''Berlin'',
                club_uri = ''http://www.wikidata.org/entity/Q141971'', club_qid = ''Q141971''\<rparr>],
         requests = []\<rparr>
        ''Who is coaching Berlin?''))
      = Some [\<lparr>club_name = ''1. FC Union Berlin'', city = ''Berlin'',
                club_uri = ''http://www.wikidata.org/entity/Q141971'', club_qid = ''Q141971''\<rparr>]"
proof -
  let ?union = "\<lparr>club_name = ''1. FC Union Berlin'', city = ''Berlin'',
                club_uri = ''http://www.wikidata.org/entity/Q141971'', club_qid = ''Q141971''\<rparr>"
  let ?down = "\<lparr>sparql_coach = (\<lambda>club. Inl Timeout), wikipedia_get = (\<lambda>title. Inl Timeout)\<rparr>"
  let ?empty = "\<lparr>sparql_coach = (\<lambda>club. Inr (Some [])), wikipedia_get = (\<lambda>title. Inl Timeout)\<rparr>"
  let ?st = "\<lparr>clubs_cache = Some [?union], requests = []\<rparr>"
  have e1: "extract_city ''Tell me something'' = None" by code_simp
  have e2: "extract_city ''Who is coaching Dresden?'' = Some ''dresden''" by code_simp
  have f2: "find_club_by_city (clubs_cache ?st) ''dresden'' = None" by code_simp
  have e3: "extract_city ''Who is coaching Berlin?'' = Some ''berlin''" by code_simp
  have f3: "find_club_by_city (clubs_cache ?st) ''berlin'' = Some ?union" by code_simp
  have s3: "sparql_coach ?empty (club_qid ?union) = Inr (Some [])" by simp
  have p3: "process_coach_results (Some []) = None" by (simp add: process_coach_results_def)
  have s4: "sparql_coach ?down (club_qid ?union) = Inl Timeout" by simp
  from process_query_never_raises[of ?down ?st "''Tell me something''"] e1
  have 1: "fst (process_query ?down ?st ''Tell me something'') = format_error_response extraction_miss_msg"
    by blast
  from process_query_never_raises[of ?down ?st "''Who is coaching Dresden?''" "''dresden''"] e2 f2
  have 2: "fst (process_query ?down ?st ''Who is coaching Dresden?'')
             = format_error_response (resolution_miss_msg ''dresden'')"
    by blast
  from process_query_never_raises[of ?empty ?st "''Who is coaching Berlin?''" "''berlin''" ?union "Some []"] e3 f3 s3 p3
  have 3: "fst (process_query ?empty ?st ''Who is coaching Berlin?'')
             = format_error_response (coach_miss_msg ''1. FC Union Berlin'')"
    by simp
  note r4 = process_query_never_raises[of ?down ?st "''Who is coaching Berlin?''" "''berlin''" ?union _ Timeout]
  from r4 e3 f3 s4
  have 4: "fst (process_query_try ?down ?st ''Who is coaching Berlin?'') = Inl Timeout"
    by blast
  with r4
  have 5: "fst (process_query ?down ?st ''Who is coaching Berlin?'') = format_error_response unexpected_error_msg"
    by blast
  from r4 have 6: "clubs_cache (snd (process_query ?down ?st ''Who is coaching Berlin?'')) = Some [?union]"
    by simp
  show ?thesis
    by (intro conjI) (fact e1 1 e2 2 3 4 5 6)+
qed

text \<open>
  Claim C5. When extraction, club resolution and coach lookup succeed, \<open>process_query\<close>
  returns the rendered prompt whatever the biography fetch gives: the result is not an
  error response, it contains the city, club and coach lines, and when the biography is
  absent (or empty) it contains the sentence
  \<open>Coach Information: No additional biographical information available from Wikipedia.\<close>
\<close>

theorem biography_absence_keeps_prompt:
  assumes "extract_city q = Some t"
    and "find_club_by_city (clubs_cache st) t = Some c"
    and "sparql_coach sv (club_qid c) = Inr res"
    and "process_coach_results res = Some k"
    and "fst (get_coach_intro sv (name k) (requests st @ [CoachQuery (club_qid c)])) = intro"
  shows "fst (process_query sv st q) = build_prompt q (club_name c) (city c) (name k) intro
       \<and> \<not> prefix ''ERROR: '' (fst (process_query sv st q))
       \<and> contains (''City: '' @ city c) (fst (process_query sv st q))
       \<and> contains (''Club: '' @ club_name c) (fst (process_query sv st q))
       \<and> contains (''Current Coach: '' @ name k) (fst (process_query sv st q))
       \<and> (intro = None \<or> intro = Some [] \<longrightarrow>
            contains ''Coach Information: No additional biographical information available from Wikipedia.''
              (fst (process_query sv st q)))"
proof -
  from process_query_success[OF assms(1-4)] assms(5)
  have out: "fst (process_query sv st q) = build_prompt q (club_name c) (city c) (name k) intro"
    by simp
  show ?thesis
    unfolding out
    by (intro conjI impI refl build_prompt_contains_fields build_prompt_contains_no_biography_text
        build_prompt_not_error)
qed

text \<open>
  Witness for C5: the Berlin question with a coach row for Steffen Baumgart and a
  Wikipedia request that times out.
\<close>

theorem biography_absence_keeps_prompt_witness:
  "extract_city ''Who is coaching Berlin?'' = Some ''berlin''
   \<and> find_club_by_city
        (Some [\<lparr>club_name = ''1. FC Union Berlin'', city = ''Berlin'',
                club_uri = ''http://www.wikidata.org/entity/Q141971'', club_qid = ''Q141971''\<rparr>])
        ''berlin''
      = Some \<lparr>club_name = ''1. FC Union Berlin'', city = ''Berlin'',
              club_uri = ''http://www.wikidata.org/entity/Q141971'', club_qid = ''Q141971''\<rparr>
   \<and> process_coach_results
        (Some [\<lparr>coachLabel_value = Some ''Steffen Baumgart'',
                coach_value = Some ''http://www.wikidata.org/entity/Q62423''\<rparr>])
      = Some \<lparr>name = ''Steffen Baumgart'', qid = ''Q62423''\<rparr>
   \<and> fst (process_query
        \<lparr>sparql_coach = (\<lambda>club. Inr (Some [\<lparr>coachLabel_value = Some ''Steffen Baumgart'',
                             coach_value = Some ''http://www.wikidata.org/entity/Q62423''\<rparr>])),
         wikipedia_get = (\<lambda>title. Inl Timeout)\<rparr>
        \<lparr>clubs_cache = Some [\<lparr>club_name = ''1. FC Union Berlin'', city = ''Berlin'',
                club_uri = ''http://www.wikidata.org/entity/Q141971'', club_qid = ''Q141971''\<rparr>],
         requests = []\<rparr>
        ''Who is coaching Berlin?'')
      = build_prompt ''Who is coaching Berlin?'' ''1. FC Union Berlin'' ''Berlin'' ''Steffen Baumgart'' None
   \<and> contains ''Coach Information: No additional biographical information available from Wikipedia.''
       (fst (process_query
        \<lparr>sparql_coach = (\<lambda>club. Inr (Some [\<lparr>coachLabel_value = Some ''Steffen Baumgart'',
                             coach_value = Some ''http://www.wikidata.org/entity/Q62423''\<rparr>])),
         wikipedia_get = (\<lambda>title. Inl Timeout)\<rparr>
        \<lparr>clubs_cache = Some [\<lparr>club_name = ''1. FC Union Berlin'', city = ''Berlin'',
                club_uri = ''http://www.wikidata.org/entity/Q141971'', club_qid = ''Q141971''\<rparr>],
         requests = []\<rparr>
        ''Who is coaching Berlin?''))
   \<and> contains ''Current Coach: Steffen Baumgart''
       (fst (process_query
        \<lparr>sparql_coach = (\<lambda>club. Inr (Some [\<lparr>coachLabel_value = Some ''Steffen Baumgart'',
                             coach_value = Some ''http://www.wikidata.org/entity/Q62423''\<rparr>])),
         wikipedia_get = (\<lambda>title. Inl Timeout)\<rparr>
        \<lparr>clubs_cache = Some [\<lparr>club_name = ''1. FC Union Berlin'', city = ''Berlin'',
                club_uri = ''http://www.wikidata.org/entity/Q141971'', club_qid = ''Q141971''\<rparr>],
         requests = []\<rparr>
        ''Who is coaching Berlin?''))"
proof -
  let ?union = "\<lparr>club_name = ''1. FC Union Berlin'', city = ''Berlin'',
                club_uri = ''http://www.wikidata.org/entity/Q141971'', club_qid = ''Q141971''\<rparr>"
  let ?res = "Some [\<lparr>coachLabel_value = Some ''Steffen Baumgart'',
                coach_value = Some ''http://www.wikidata.org/entity/Q62423''\<rparr>]"
  let ?k = "\<lparr>name = ''Steffen Baumgart'', qid = ''Q62423''\<rparr>"
  let ?sv = "\<lparr>sparql_coach = (\<lambda>club. Inr ?res), wikipedia_get = (\<lambda>title. Inl Timeout)\<rparr>"
  let ?st = "\<lparr>clubs_cache = Some [?union], requests = []\<rparr>"
  let ?q = "''Who is coaching Berlin?''"
  have e: "extract_city ?q = Some ''berlin''" by code_simp
  have f: "find_club_by_city (clubs_cache ?st) ''berlin'' = Some ?union" by code_simp
  have s: "sparql_coach ?sv (club_qid ?union) = Inr ?res" by simp
  have p: "process_coach_results ?res = Some ?k" by code_simp
  have i: "fst (get_coach_intro ?sv (name ?k) (requests ?st @ [CoachQuery (club_qid ?union)])) = None"
    by (simp add: get_coach_intro_def)
  note r = biography_absence_keeps_prompt[OF e f s p i]
  from r have "fst (process_query ?sv ?st ?q)
      = build_prompt ?q (club_name ?union) (city ?union) (name ?k) None"
    by blast
  then have 1: "fst (process_query ?sv ?st ?q)
      = build_prompt ?q ''1. FC Union Berlin'' ''Berlin'' ''Steffen Baumgart'' None"
    by simp
  from r have 2: "contains ''Coach Information: No additional biographical information available from Wikipedia.''
      (fst (process_query ?sv ?st ?q))"
    by blast
  from r have "contains (''Current Coach: '' @ name ?k) (fst (process_query ?sv ?st ?q))"
    by blast
  then have 3: "contains ''Current Coach: Steffen Baumgart'' (fst (process_query ?sv ?st ?q))"
    by simp
  from f have f': "find_club_by_city (Some [?union]) ''berlin'' = Some ?union" by simp
  show ?thesis
    by (intro conjI) (fact e f' p 1 2 3)+
qed

end
